theory Spec2Isabelle
  imports Complex_Main
begin

section \<open>JavaScript numbers\<close>

text \<open>
  The scoring code computes on JavaScript numbers, which are IEEE 754 double-precision
  values.  A number is a finite value, one of the two infinities, or NaN.  Every
  arithmetic operation on finite values computes the exact real result and rounds it to
  the nearest double, ties to the even significand (\<open>round_double\<close>): it can overflow to
  an infinity and underflow to zero.  Division by zero, \<open>0 / 0\<close>, comparisons with NaN
  (always false) and the NaN-propagation of \<open>Math.min\<close> and \<open>Math.max\<close> behave as in the
  language.  There is one zero, the positive one: the sign of a zero is not modelled, so
  inputs are taken not to be the negative zero.
\<close>

datatype number = Fin real | PInf | NInf | NaN

text \<open>Rounding a real to the nearest integer, a tie to the even one.\<close>

definition rhe :: "real \<Rightarrow> int" where
  "rhe t =
     (let f = \<lfloor>t\<rfloor>; d = t - of_int f
      in if d < 1 / 2 then f else if 1 / 2 < d then f + 1 else if even f then f else f + 1)"

text \<open>
  The binary exponent of the doubles around a positive magnitude \<open>a\<close>: the largest \<open>e\<close>
  of at most 1023 with \<open>2^e \<le> a\<close>, and \<open>-1022\<close> for the subnormal range.
\<close>

definition expo :: "real \<Rightarrow> int" where
  "expo a = Max (insert (- 1022) {e \<in> {- 1021 .. 1023}. 2 powi e \<le> a})"

definition overflow_threshold :: real where
  "overflow_threshold = 2 ^ 1024"

text \<open>
  The double nearest to a real: the magnitude is rounded to a multiple of the spacing
  \<open>2^(e - 52)\<close> of its binade, and a result of \<open>2^1024\<close> or more is an infinity.
\<close>

definition round_double :: "real \<Rightarrow> number" where
  "round_double x =
     (if x = 0 then Fin 0
      else
        (let a = \<bar>x\<bar>;
             q = 2 powi (expo a - 52);
             y = of_int (rhe (a / q)) * q
         in if overflow_threshold \<le> y then (if 0 < x then PInf else NInf)
            else Fin (if 0 < x then y else - y)))"

text \<open>
  A decimal literal of the source denotes the double nearest to it.  A literal that is
  an integer or a multiple of one half below \<open>2^52\<close> is that double itself and is written
  \<open>Fin c\<close>; any other literal \<open>c\<close> is written \<open>lit c\<close>.
\<close>

definition lit :: "real \<Rightarrow> number" where
  "lit c = round_double c"

instantiation number :: "{plus, minus, times, inverse, ord}"
begin

fun plus_number :: "number \<Rightarrow> number \<Rightarrow> number" where
  "plus_number NaN _ = NaN"
| "plus_number _ NaN = NaN"
| "plus_number (Fin a) (Fin b) = round_double (a + b)"
| "plus_number PInf NInf = NaN"
| "plus_number NInf PInf = NaN"
| "plus_number PInf _ = PInf"
| "plus_number _ PInf = PInf"
| "plus_number NInf _ = NInf"
| "plus_number _ NInf = NInf"

fun minus_number :: "number \<Rightarrow> number \<Rightarrow> number" where
  "minus_number NaN _ = NaN"
| "minus_number _ NaN = NaN"
| "minus_number (Fin a) (Fin b) = round_double (a - b)"
| "minus_number PInf PInf = NaN"
| "minus_number NInf NInf = NaN"
| "minus_number PInf _ = PInf"
| "minus_number _ PInf = NInf"
| "minus_number NInf _ = NInf"
| "minus_number _ NInf = PInf"

fun times_number :: "number \<Rightarrow> number \<Rightarrow> number" where
  "times_number NaN _ = NaN"
| "times_number _ NaN = NaN"
| "times_number (Fin a) (Fin b) = round_double (a * b)"
| "times_number (Fin a) PInf = (if a = 0 then NaN else if 0 < a then PInf else NInf)"
| "times_number (Fin a) NInf = (if a = 0 then NaN else if 0 < a then NInf else PInf)"
| "times_number PInf (Fin b) = (if b = 0 then NaN else if 0 < b then PInf else NInf)"
| "times_number NInf (Fin b) = (if b = 0 then NaN else if 0 < b then NInf else PInf)"
| "times_number PInf PInf = PInf"
| "times_number NInf NInf = PInf"
| "times_number PInf NInf = NInf"
| "times_number NInf PInf = NInf"

fun divide_number :: "number \<Rightarrow> number \<Rightarrow> number" where
  "divide_number NaN _ = NaN"
| "divide_number _ NaN = NaN"
| "divide_number (Fin a) (Fin b) =
     (if b \<noteq> 0 then round_double (a / b)
      else if a = 0 then NaN else if 0 < a then PInf else NInf)"
| "divide_number (Fin a) _ = Fin 0"
| "divide_number PInf (Fin b) = (if 0 \<le> b then PInf else NInf)"
| "divide_number NInf (Fin b) = (if 0 \<le> b then NInf else PInf)"
| "divide_number _ _ = NaN"

definition inverse_number :: "number \<Rightarrow> number" where
  "inverse_number x = divide (Fin 1) x"

fun less_eq_number :: "number \<Rightarrow> number \<Rightarrow> bool" where
  "less_eq_number NaN _ = False"
| "less_eq_number _ NaN = False"
| "less_eq_number (Fin a) (Fin b) = (a \<le> b)"
| "less_eq_number NInf _ = True"
| "less_eq_number _ PInf = True"
| "less_eq_number _ _ = False"

fun less_number :: "number \<Rightarrow> number \<Rightarrow> bool" where
  "less_number NaN _ = False"
| "less_number _ NaN = False"
| "less_number (Fin a) (Fin b) = (a < b)"
| "less_number PInf _ = False"
| "less_number _ NInf = False"
| "less_number _ _ = True"

instance ..

end

text \<open>\<open>Math.min\<close> and \<open>Math.max\<close> of two arguments: NaN as soon as one argument is.\<close>

fun Math_min :: "number \<Rightarrow> number \<Rightarrow> number" where
  "Math_min NaN _ = NaN"
| "Math_min _ NaN = NaN"
| "Math_min a b = (if a \<le> b then a else b)"

fun Math_max :: "number \<Rightarrow> number \<Rightarrow> number" where
  "Math_max NaN _ = NaN"
| "Math_max _ NaN = NaN"
| "Math_max a b = (if a \<le> b then b else a)"

text \<open>
  A number used as a condition is true unless it is zero or NaN.  An optional field that
  is absent is \<open>None\<close> (\<open>undefined\<close>, false as a condition).
\<close>

fun truthy :: "number \<Rightarrow> bool" where
  "truthy (Fin a) = (a \<noteq> 0)"
| "truthy NaN = False"
| "truthy _ = True"

text \<open>\<open>x || d\<close> on an optional number \<open>x\<close>.\<close>

fun or_default :: "number option \<Rightarrow> number \<Rightarrow> number" where
  "or_default None d = d"
| "or_default (Some x) d = (if truthy x then x else d)"

text \<open>
  Template strings are kept as the sequence of their parts, so that the numbers put into
  a message remain readable: a literal, \<open>${x}\<close>, or \<open>${x.toFixed(n)}\<close>.
\<close>

datatype piece = Lit string | Num number | Fixed nat number

type_synonym template = "piece list"

text \<open>\<open>${x || 'N/A'}\<close> inside a template.\<close>

fun or_NA :: "number option \<Rightarrow> piece" where
  "or_NA None = Lit ''N/A''"
| "or_NA (Some x) = (if truthy x then Num x else Lit ''N/A'')"

text \<open>
  \<open>toLowerCase\<close> on the letters A to Z; the strings it is applied to here are the
  ASCII component names and category descriptions.
\<close>

definition toLowerCase :: "string \<Rightarrow> string" where
  "toLowerCase s =
     map (\<lambda>c. let k = (of_char c :: nat) in if 65 \<le> k \<and> k \<le> 90 then char_of (k + 32) else c) s"

section \<open>Rent-cap helper\<close>

text \<open>
  Every function that reads the clock (\<open>new Date().getFullYear()\<close>) takes the year it
  reads as its first argument \<open>thisYear\<close>; a function that calls another passes the same
  year on.  In \<open>RentCapInfo\<close> the fields \<open>currentYear\<close> and \<open>yearBuilt\<close> carry the suffix
  \<open>_info\<close>, and the \<open>isEligible\<close> field of the result of \<open>calculateMaxRentIncrease\<close> is
  \<open>isEligible_inc\<close>, because a field name can be declared once only.
\<close>

record RentCapInfo =
  isEligible :: bool
  maxIncreasePercentage :: number
  currentYear_info :: number
  yearBuilt_info :: number
  propertyAge :: number
  exemptionReasons :: "template list"
  nextYearCap :: number

definition CURRENT_INFLATION_RATE :: number where
  "CURRENT_INFLATION_RATE = lit 3.4"

definition checkRentCapEligibility :: "int \<Rightarrow> number \<Rightarrow> RentCapInfo" where
  "checkRentCapEligibility thisYear yearBuilt =
     (let currentYear = Fin (of_int thisYear);
          propertyAge = currentYear - yearBuilt;
          isEligible = (propertyAge \<ge> Fin 15);
          exemptionReasons =
            (if \<not> isEligible
             then [] @ [[Lit ''Property is only '', Num propertyAge,
                         Lit '' years old (must be 15+ years)'']]
             else []);
          maxIncreasePercentage =
            (if isEligible then Fin 5.0 + CURRENT_INFLATION_RATE else Fin 0);
          nextYearCap =
            (if isEligible then Fin 5.0 + (CURRENT_INFLATION_RATE * lit 0.9) else Fin 0)
      in \<lparr>isEligible = isEligible,
          maxIncreasePercentage = maxIncreasePercentage,
          currentYear_info = currentYear,
          yearBuilt_info = yearBuilt,
          propertyAge = propertyAge,
          exemptionReasons = exemptionReasons,
          nextYearCap = nextYearCap\<rparr>)"

record MaxRentIncrease =
  maxIncrease :: number
  maxNewRent :: number
  increasePercentage :: number
  isEligible_inc :: bool

definition calculateMaxRentIncrease ::
    "int \<Rightarrow> number \<Rightarrow> number \<Rightarrow> number option \<Rightarrow> MaxRentIncrease" where
  "calculateMaxRentIncrease thisYear currentRent yearBuilt inflationRate =
     (let rentCapInfo = checkRentCapEligibility thisYear yearBuilt;
          inflation = or_default inflationRate CURRENT_INFLATION_RATE
      in if \<not> isEligible rentCapInfo
         then \<lparr>maxIncrease = Fin 0,
               maxNewRent = currentRent,
               increasePercentage = Fin 0,
               isEligible_inc = False\<rparr>
         else
           (let increasePercentage = Fin 5.0 + inflation;
                maxIncrease = currentRent * (increasePercentage / Fin 100);
                maxNewRent = currentRent + maxIncrease
            in \<lparr>maxIncrease = maxIncrease,
                maxNewRent = maxNewRent,
                increasePercentage = increasePercentage,
                isEligible_inc = True\<rparr>))"

record RentStabilizationBoost =
  boostScore :: number
  annualValue :: number
  fiveYearValue :: number
  reasoning :: template

definition calculateRentStabilizationBoost ::
    "int \<Rightarrow> number \<Rightarrow> number \<Rightarrow> number \<Rightarrow> RentStabilizationBoost" where
  "calculateRentStabilizationBoost thisYear yearBuilt currentMarketRent potentialRentIncrease =
     (let rentCapInfo = checkRentCapEligibility thisYear yearBuilt
      in if \<not> isEligible rentCapInfo
         then \<lparr>boostScore = Fin 0,
               annualValue = Fin 0,
               fiveYearValue = Fin 0,
               reasoning = [Lit ''Property not eligible for rent stabilization benefits'']\<rparr>
         else
           (let marketVolatilityPremium = lit 0.08;
                stabilizedIncrease = maxIncreasePercentage rentCapInfo / Fin 100;
                volatilityBenefit = marketVolatilityPremium - stabilizedIncrease;
                annualValue = currentMarketRent * volatilityBenefit;
                fiveYearValue = annualValue * Fin 5;
                boostScore =
                  Math_min (Fin 20)
                    (Math_max (Fin 0) ((annualValue / currentMarketRent) * Fin 100));
                reasoning =
                  [Lit ''Rent stabilization provides predictable '',
                   Fixed 1 (maxIncreasePercentage rentCapInfo),
                   Lit ''% annual increases vs estimated '',
                   Num (marketVolatilityPremium * Fin 100),
                   Lit ''% market volatility, creating '',
                   Fixed 0 annualValue,
                   Lit '' annual value advantage.'']
            in \<lparr>boostScore = boostScore,
                annualValue = annualValue,
                fiveYearValue = fiveYearValue,
                reasoning = reasoning\<rparr>))"

section \<open>Deal scorer\<close>

datatype PropertyType = single_family | condo | townhouse | multi_family

record PropertyMetrics =
  price :: number
  sqft :: number
  beds :: number
  baths :: number
  yearBuilt :: number
  propertyType :: PropertyType
  latitude :: number
  longitude :: number

record NeighborhoodData =
  medianPricePerSqft :: number
  medianPrice :: number
  avgSqft :: number
  avgBeds :: number
  avgBaths :: number
  avgYearBuilt :: number
  priceAppreciationRate :: "number option"
  rentalYield :: "number option"
  walkScore :: "number option"
  transitScore :: "number option"
  crimeRate :: "number option"
  schoolRating :: "number option"

record BreakdownEntry =
  component :: string
  score :: number
  maxScore :: number
  explanation :: template

record DealScoreBreakdown =
  totalScore :: number
  priceAdvantage :: number
  sizeAdvantage :: number
  ageAdvantage :: number
  rentStabilizationBonus :: number
  locationBonus :: number
  marketTimingBonus :: number
  breakdown :: "BreakdownEntry list"

text \<open>The ratio that \<open>calculatePriceAdvantage\<close> compares with its thresholds.\<close>

definition priceRatio :: "PropertyMetrics \<Rightarrow> NeighborhoodData \<Rightarrow> number" where
  "priceRatio property neighborhood =
     (price property / sqft property) / medianPricePerSqft neighborhood"

definition calculatePriceAdvantage :: "PropertyMetrics \<Rightarrow> NeighborhoodData \<Rightarrow> number" where
  "calculatePriceAdvantage property neighborhood =
     (let propertyPricePerSqft = price property / sqft property;
          priceRatio = propertyPricePerSqft / medianPricePerSqft neighborhood
      in if priceRatio \<le> lit 0.8 then Fin 40
         else if priceRatio \<le> lit 0.9 then Fin 35
         else if priceRatio \<le> lit 0.95 then Fin 30
         else if priceRatio \<le> Fin 1.0 then Fin 25
         else if priceRatio \<le> lit 1.05 then Fin 20
         else if priceRatio \<le> lit 1.1 then Fin 15
         else if priceRatio \<le> lit 1.2 then Fin 10
         else Fin 5)"

definition calculateSizeAdvantage :: "PropertyMetrics \<Rightarrow> NeighborhoodData \<Rightarrow> number" where
  "calculateSizeAdvantage property neighborhood =
     (let score = Fin 7.5;
          sizeRatio = sqft property / avgSqft neighborhood;
          score =
            (if sizeRatio \<ge> lit 1.2 then score + Fin 4
             else if sizeRatio \<ge> lit 1.1 then score + Fin 3
             else if sizeRatio \<ge> Fin 1.0 then score + Fin 2
             else if sizeRatio \<ge> lit 0.9 then score + Fin 1
             else score - Fin 2);
          bedBathRatio = beds property / baths property;
          score =
            (if bedBathRatio \<ge> Fin 1 \<and> bedBathRatio \<le> Fin 2 then score + Fin 2
             else if bedBathRatio > Fin 2 then score - Fin 1
             else score);
          score =
            (if propertyType property = single_family then score + Fin 2
             else if propertyType property = townhouse then score + Fin 1
             else score)
      in Math_min (Fin 15) (Math_max (Fin 0) score))"

text \<open>
  The three adjustments that \<open>calculateSizeAdvantage\<close> makes to its base score of 7.5,
  each as the amount it adds.
\<close>

definition sizeAdjustment :: "PropertyMetrics \<Rightarrow> NeighborhoodData \<Rightarrow> real" where
  "sizeAdjustment property neighborhood =
     (let sizeRatio = sqft property / avgSqft neighborhood
      in if sizeRatio \<ge> lit 1.2 then 4
         else if sizeRatio \<ge> lit 1.1 then 3
         else if sizeRatio \<ge> Fin 1.0 then 2
         else if sizeRatio \<ge> lit 0.9 then 1
         else - 2)"

definition layoutAdjustment :: "PropertyMetrics \<Rightarrow> real" where
  "layoutAdjustment property =
     (let bedBathRatio = beds property / baths property
      in if bedBathRatio \<ge> Fin 1 \<and> bedBathRatio \<le> Fin 2 then 2
         else if bedBathRatio > Fin 2 then - 1
         else 0)"

definition typeAdjustment :: "PropertyMetrics \<Rightarrow> real" where
  "typeAdjustment property =
     (if propertyType property = single_family then 2
      else if propertyType property = townhouse then 1
      else 0)"

definition calculateAgeAdvantage ::
    "int \<Rightarrow> PropertyMetrics \<Rightarrow> NeighborhoodData \<Rightarrow> number" where
  "calculateAgeAdvantage thisYear property neighborhood =
     (let currentYear = Fin (of_int thisYear);
          propertyAge = currentYear - yearBuilt property;
          neighborhoodAge = currentYear - avgYearBuilt neighborhood;
          score = Fin 10;
          score =
            (if propertyAge > neighborhoodAge + Fin 20 then score + Fin 5
             else if propertyAge > neighborhoodAge + Fin 10 then score + Fin 3
             else if propertyAge > neighborhoodAge - Fin 5 then score + Fin 1
             else score - Fin 2);
          score =
            (if propertyAge \<ge> Fin 50 then score + Fin 3
             else if propertyAge \<ge> Fin 30 then score + Fin 2
             else score)
      in Math_min (Fin 15) (Math_max (Fin 0) score))"

definition calculateRentStabilizationBonusValue ::
    "int \<Rightarrow> PropertyMetrics \<Rightarrow> NeighborhoodData \<Rightarrow> number" where
  "calculateRentStabilizationBonusValue thisYear property neighborhood =
     (let currentYear = Fin (of_int thisYear);
          propertyAge = currentYear - yearBuilt property
      in if propertyAge < Fin 15 then Fin 0
         else
           (let estimatedMarketRent = (price property * lit 0.008) / Fin 12;
                rentStabilizationBoost =
                  calculateRentStabilizationBoost thisYear (yearBuilt property)
                    estimatedMarketRent (lit 0.05 + lit 0.034)
            in Math_min (Fin 10) (boostScore rentStabilizationBoost / Fin 2)))"

definition calculateLocationBonus :: "NeighborhoodData \<Rightarrow> number" where
  "calculateLocationBonus neighborhood =
     (let score = Fin 5;
          score =
            (case walkScore neighborhood of
               None \<Rightarrow> score
             | Some w \<Rightarrow>
                 if truthy w
                 then (if w \<ge> Fin 90 then score + Fin 3
                       else if w \<ge> Fin 70 then score + Fin 2
                       else if w \<ge> Fin 50 then score + Fin 1
                       else score)
                 else score);
          score =
            (case schoolRating neighborhood of
               None \<Rightarrow> score
             | Some s \<Rightarrow>
                 if truthy s
                 then (if s \<ge> Fin 8 then score + Fin 2
                       else if s \<ge> Fin 6 then score + Fin 1
                       else score)
                 else score);
          score =
            (case crimeRate neighborhood of
               None \<Rightarrow> score
             | Some c \<Rightarrow>
                 if truthy c
                 then (if c \<le> Fin 20 then score + Fin 2
                       else if c \<le> Fin 40 then score + Fin 1
                       else score)
                 else score);
          score =
            (case transitScore neighborhood of
               None \<Rightarrow> score
             | Some t \<Rightarrow>
                 if truthy t
                 then (if t \<ge> Fin 70 then score + Fin 1 else score)
                 else score)
      in Math_min (Fin 10) (Math_max (Fin 0) score))"

definition calculateMarketTimingBonus :: "NeighborhoodData \<Rightarrow> number" where
  "calculateMarketTimingBonus neighborhood =
     (let score = Fin 5;
          score =
            (case priceAppreciationRate neighborhood of
               None \<Rightarrow> score
             | Some a \<Rightarrow>
                 if truthy a
                 then (if a \<ge> Fin 8 then score + Fin 3
                       else if a \<ge> Fin 5 then score + Fin 2
                       else if a \<ge> Fin 3 then score + Fin 1
                       else if a < Fin 0 then score - Fin 2
                       else score)
                 else score);
          score =
            (case rentalYield neighborhood of
               None \<Rightarrow> score
             | Some y \<Rightarrow>
                 if truthy y
                 then (if y \<ge> Fin 6 then score + Fin 2
                       else if y \<ge> Fin 4 then score + Fin 1
                       else score)
                 else score)
      in Math_min (Fin 10) (Math_max (Fin 0) score))"

text \<open>
  \<open>calculateDealScore\<close> pushes one entry per component onto an initially empty list and
  adds each component to a running total that starts at 0.  Its optional third parameter
  \<open>nearbyProperties\<close> is never read and is left out.
\<close>

definition calculateDealScore ::
    "int \<Rightarrow> PropertyMetrics \<Rightarrow> NeighborhoodData \<Rightarrow> DealScoreBreakdown" where
  "calculateDealScore thisYear property neighborhood =
     (let breakdown = [];
          totalScore = Fin 0;
          priceAdvantage = calculatePriceAdvantage property neighborhood;
          breakdown = breakdown @
            [\<lparr>component = ''Price Advantage'',
              score = priceAdvantage,
              maxScore = Fin 40,
              explanation =
                [Lit ''Property at $'', Fixed 0 (price property / sqft property),
                 Lit ''/sqft vs neighborhood avg $'',
                 Fixed 0 (medianPricePerSqft neighborhood), Lit ''/sqft'']\<rparr>];
          totalScore = totalScore + priceAdvantage;
          sizeAdvantage = calculateSizeAdvantage property neighborhood;
          breakdown = breakdown @
            [\<lparr>component = ''Size & Layout'',
              score = sizeAdvantage,
              maxScore = Fin 15,
              explanation =
                [Num (beds property), Lit ''bed/'', Num (baths property), Lit ''bath, '',
                 Num (sqft property), Lit ''sqft vs neighborhood averages'']\<rparr>];
          totalScore = totalScore + sizeAdvantage;
          ageAdvantage = calculateAgeAdvantage thisYear property neighborhood;
          rentStabilizationBonus =
            calculateRentStabilizationBonusValue thisYear property neighborhood;
          breakdown = breakdown @
            [\<lparr>component = ''Age & Rent Stabilization'',
              score = ageAdvantage + rentStabilizationBonus,
              maxScore = Fin 25,
              explanation =
                [Lit ''Built '', Num (yearBuilt property),
                 Lit '', rent stabilization bonus: '', Fixed 1 rentStabilizationBonus,
                 Lit ''pts'']\<rparr>];
          totalScore = totalScore + (ageAdvantage + rentStabilizationBonus);
          locationBonus = calculateLocationBonus neighborhood;
          breakdown = breakdown @
            [\<lparr>component = ''Location & Amenities'',
              score = locationBonus,
              maxScore = Fin 10,
              explanation =
                [Lit ''Walk score: '', or_NA (walkScore neighborhood),
                 Lit '', schools: '', or_NA (schoolRating neighborhood)]\<rparr>];
          totalScore = totalScore + locationBonus;
          marketTimingBonus = calculateMarketTimingBonus neighborhood;
          breakdown = breakdown @
            [\<lparr>component = ''Market Timing'',
              score = marketTimingBonus,
              maxScore = Fin 10,
              explanation =
                [Lit ''Market appreciation: '', or_NA (priceAppreciationRate neighborhood),
                 Lit ''%, rental yield: '', or_NA (rentalYield neighborhood), Lit ''%'']\<rparr>];
          totalScore = totalScore + marketTimingBonus
      in \<lparr>totalScore = Math_min (Fin 100) (Math_max (Fin 0) totalScore),
          priceAdvantage = priceAdvantage,
          sizeAdvantage = sizeAdvantage,
          ageAdvantage = ageAdvantage,
          rentStabilizationBonus = rentStabilizationBonus,
          locationBonus = locationBonus,
          marketTimingBonus = marketTimingBonus,
          breakdown = breakdown\<rparr>)"

record DealScoreCategory =
  category :: string
  color :: string
  description :: string
  recommendation :: string

definition getDealScoreCategory :: "number \<Rightarrow> DealScoreCategory" where
  "getDealScoreCategory theScore =
     (if theScore \<ge> Fin 90 then
        \<lparr>category = ''Excellent Deal'',
         color = ''green'',
         description = ''Outstanding value with strong investment potential'',
         recommendation = ''Act quickly - these deals are rare and competitive''\<rparr>
      else if theScore \<ge> Fin 80 then
        \<lparr>category = ''Great Deal'',
         color = ''blue'',
         description = ''Significantly undervalued with good fundamentals'',
         recommendation = ''Strong consideration - schedule viewing ASAP''\<rparr>
      else if theScore \<ge> Fin 70 then
        \<lparr>category = ''Good Deal'',
         color = ''yellow'',
         description = ''Fairly priced with some advantages'',
         recommendation = ''Worth investigating further''\<rparr>
      else if theScore \<ge> Fin 60 then
        \<lparr>category = ''Average Deal'',
         color = ''orange'',
         description = ''Market price with typical features'',
         recommendation = ''Consider if it meets specific needs''\<rparr>
      else
        \<lparr>category = ''Poor Deal'',
         color = ''red'',
         description = ''Overpriced or lacking key features'',
         recommendation = ''Pass unless there are compelling reasons''\<rparr>)"

text \<open>
  The reasoning text of \<open>generateInvestmentRecommendation\<close> reads
  \<open>dealScore.breakdown[0]\<close> and \<open>dealScore.breakdown[1]\<close>.  On a breakdown with fewer
  than two entries that read is of a field of \<open>undefined\<close>, a \<open>TypeError\<close>: the result
  \<open>None\<close>.  The fields \<open>recommendation\<close> and \<open>reasoning\<close> of the result carry the suffix
  \<open>_rec\<close>.
\<close>

record InvestmentRecommendation =
  recommendation_rec :: string
  reasoning_rec :: template
  risks :: "string list"
  opportunities :: "string list"

definition generateInvestmentRecommendation ::
    "int \<Rightarrow> DealScoreBreakdown \<Rightarrow> PropertyMetrics \<Rightarrow> NeighborhoodData
       \<Rightarrow> InvestmentRecommendation option" where
  "generateInvestmentRecommendation thisYear dealScore property neighborhood =
     (let category = getDealScoreCategory (totalScore dealScore);
          risks = [];
          opportunities = [];
          risks =
            (if priceAdvantage dealScore < Fin 20
             then risks @ [''Property may be overpriced compared to neighborhood'']
             else risks);
          risks =
            (if yearBuilt property > Fin (of_int thisYear) - Fin 5
             then risks @ [''New construction may have premium pricing'']
             else risks);
          risks =
            (if (case crimeRate neighborhood of
                   None \<Rightarrow> False | Some c \<Rightarrow> truthy c \<and> c > Fin 50)
             then risks @ [''Higher crime rate in area'']
             else risks);
          risks =
            (if (case priceAppreciationRate neighborhood of
                   None \<Rightarrow> False | Some a \<Rightarrow> truthy a \<and> a < Fin 2)
             then risks @ [''Low appreciation potential'']
             else risks);
          opportunities =
            (if rentStabilizationBonus dealScore > Fin 5
             then opportunities @ [''Rent stabilization provides predictable cash flow'']
             else opportunities);
          opportunities =
            (if locationBonus dealScore > Fin 7
             then opportunities @ [''Excellent location with strong amenities'']
             else opportunities);
          opportunities =
            (if (case priceAppreciationRate neighborhood of
                   None \<Rightarrow> False | Some a \<Rightarrow> truthy a \<and> a > Fin 6)
             then opportunities @ [''High neighborhood appreciation potential'']
             else opportunities);
          opportunities =
            (if (case rentalYield neighborhood of
                   None \<Rightarrow> False | Some y \<Rightarrow> truthy y \<and> y > Fin 5)
             then opportunities @ [''Strong rental yield for investment'']
             else opportunities)
      in case breakdown dealScore of
           b0 # b1 # _ \<Rightarrow>
             Some \<lparr>recommendation_rec = recommendation category,
                   reasoning_rec =
                     [Lit ''Based on a '', Fixed 1 (totalScore dealScore),
                      Lit ''/100 deal score, this property '',
                      Lit (toLowerCase (description category)),
                      Lit ''. Key factors include '',
                      Lit (toLowerCase (component b0)), Lit '' ('',
                      Fixed 1 (score b0), Lit ''/'', Num (maxScore b0),
                      Lit '' points) and '',
                      Lit (toLowerCase (component b1)), Lit '' ('',
                      Fixed 1 (score b1), Lit ''/'', Num (maxScore b1),
                      Lit '' points).''],
                   risks = risks,
                   opportunities = opportunities\<rparr>
         | _ \<Rightarrow> None)"

text \<open>The two component names that the reasoning text of a recommendation quotes.\<close>

definition keyFactors :: "InvestmentRecommendation \<Rightarrow> string list" where
  "keyFactors r = [s. Lit s \<leftarrow> [reasoning_rec r ! 5, reasoning_rec r ! 11]]"

text \<open>Example inputs: a 1960 house and its neighbourhood, with no optional statistic.\<close>

definition exampleProperty :: PropertyMetrics where
  "exampleProperty =
     \<lparr>price = Fin 800000, sqft = Fin 1000, beds = Fin 3, baths = Fin 2,
      yearBuilt = Fin 1960, propertyType = single_family,
      latitude = Fin 34, longitude = Fin (- 118)\<rparr>"

definition exampleNeighborhood :: NeighborhoodData where
  "exampleNeighborhood =
     \<lparr>medianPricePerSqft = Fin 1000, medianPrice = Fin 1000000, avgSqft = Fin 1000,
      avgBeds = Fin 3, avgBaths = Fin 2, avgYearBuilt = Fin 1960,
      priceAppreciationRate = None, rentalYield = None, walkScore = None,
      transitScore = None, crimeRate = None, schoolRating = None\<rparr>"

text \<open>A number that is at most zero, and one that is at least zero (NaN is neither).\<close>

fun nonpositive :: "number \<Rightarrow> bool" where
  "nonpositive (Fin c) = (c \<le> 0)"
| "nonpositive NInf = True"
| "nonpositive _ = False"

fun nonnegative :: "number \<Rightarrow> bool" where
  "nonnegative (Fin c) = (0 \<le> c)"
| "nonnegative PInf = True"
| "nonnegative _ = False"

section \<open>Facts about rounding\<close>

lemma rhe_of_int: "rhe (of_int n) = n"
  by (simp add: rhe_def)

lemma rhe_nonneg: "0 \<le> t \<Longrightarrow> 0 \<le> rhe t"
  by (auto simp: rhe_def Let_def)

lemma expo_set_finite: "finite (insert (- 1022) {e \<in> {- 1021 .. 1023::int}. P e})"
  by (rule finite.insertI, rule finite_subset [of _ "{- 1021 .. 1023}"]) auto

lemma powi_diff_nat: "(2::real) powi (int a - int b) = 2 ^ a / 2 ^ b"
  using power_int_diff [of "2::real" "int a" "int b"] by (simp add: power_int_of_nat)

lemma expo_member: "expo a \<in> insert (- 1022) {e \<in> {- 1021 .. 1023}. 2 powi e \<le> a}"
  unfolding expo_def by (rule Max_in [OF expo_set_finite]) simp

lemma expo_lower: "- 1022 \<le> expo a"
  using expo_member [of a] by auto

lemma expo_le: "expo a = - 1022 \<or> 2 powi (expo a) \<le> a"
  using expo_member [of a] by auto

lemma expo_eqI:
  assumes "2 powi e \<le> a" and "a < 2 powi (e + 1)" and "- 1022 \<le> e" and "e \<le> 1023"
  shows "expo a = e"
  unfolding expo_def
proof (rule Max_eqI [OF expo_set_finite])
  fix e' assume "e' \<in> insert (- 1022) {e \<in> {- 1021 .. 1023}. 2 powi e \<le> a}"
  then consider "e' = - 1022" | "(2::real) powi e' \<le> a"
    by auto
  then show "e' \<le> e"
  proof cases
    case 1
    with assms(3) show ?thesis by simp
  next
    case 2
    with assms(2) have less: "(2::real) powi e' < 2 powi (e + 1)"
      by simp
    have "e' < e + 1"
    proof (rule ccontr)
      assume "\<not> e' < e + 1"
      then have "(2::real) powi (e + 1) \<le> 2 powi e'"
        by (intro power_int_increasing) simp_all
      with less show False by simp
    qed
    then show ?thesis by simp
  qed
next
  show "e \<in> insert (- 1022) {e \<in> {- 1021 .. 1023}. 2 powi e \<le> a}"
    using assms by auto
qed

text \<open>
  Evaluation of \<open>round_double\<close> at a positive \<open>x\<close> below \<open>2^53\<close>: scale \<open>x\<close> by \<open>2^n\<close>
  into \<open>[2^52, 2^53)\<close>, round to an integer, scale back.
\<close>

lemma round_double_pos:
  assumes "0 < x" and "n \<le> 1074" and "2 ^ 52 \<le> x * 2 ^ n" and "x * 2 ^ n < 2 ^ 53"
  shows "round_double x = Fin (of_int (rhe (x * 2 ^ n)) / 2 ^ n)"
proof -
  have pw: "(2::real) powi (52 - int n) = 2 ^ 52 / 2 ^ n"
    using powi_diff_nat [of 52 n] by simp
  have pw1: "(2::real) powi (53 - int n) = 2 ^ 53 / 2 ^ n"
    using powi_diff_nat [of 53 n] by simp
  have e: "expo \<bar>x\<bar> = 52 - int n"
  proof (rule expo_eqI)
    show "2 powi (52 - int n) \<le> \<bar>x\<bar>"
      using assms by (simp add: pw field_simps)
    show "\<bar>x\<bar> < 2 powi (52 - int n + 1)"
      using assms by (simp add: pw1 field_simps)
  qed (use assms in simp_all)
  have q: "(2::real) powi (expo \<bar>x\<bar> - 52) = 1 / 2 ^ n"
    using powi_diff_nat [of 0 n] by (simp add: e)
  have r: "rhe (x * 2 ^ n) \<le> 2 ^ 53"
    using assms(4) by (auto simp: rhe_def Let_def floor_le_iff le_floor_iff)
  have "real_of_int (rhe (x * 2 ^ n)) / 2 ^ n \<le> 2 ^ 53 / 2 ^ n"
    using r by (simp add: divide_right_mono)
  also have "\<dots> \<le> 2 ^ 53"
    by (simp add: field_simps)
  also have "\<dots> < overflow_threshold"
    unfolding overflow_threshold_def by (rule power_strict_increasing) simp_all
  finally have small: "\<not> overflow_threshold \<le> real_of_int (rhe (x * 2 ^ n)) / 2 ^ n"
    by simp
  have "round_double x =
      (if overflow_threshold \<le> of_int (rhe (\<bar>x\<bar> / (1 / 2 ^ n))) * (1 / 2 ^ n)
       then (if 0 < x then PInf else NInf)
       else Fin (if 0 < x then of_int (rhe (\<bar>x\<bar> / (1 / 2 ^ n))) * (1 / 2 ^ n)
                 else - (of_int (rhe (\<bar>x\<bar> / (1 / 2 ^ n))) * (1 / 2 ^ n))))"
    using assms(1) unfolding round_double_def Let_def q by simp
  also have "\<dots> = Fin (of_int (rhe (x * 2 ^ n)) / 2 ^ n)"
    using assms(1) small by simp
  finally show ?thesis .
qed

lemma round_double_neg:
  assumes "x < 0" and "round_double (- x) = Fin z"
  shows "round_double x = Fin (- z)"
  using assms by (simp add: round_double_def Let_def split: if_splits)

text \<open>Integers and multiples of one half up to \<open>2^52\<close> are doubles.\<close>

lemma round_double_half:
  assumes "\<bar>m\<bar> \<le> 2 ^ 53"
  shows "round_double (of_int m / 2) = Fin (of_int m / 2)"
proof (cases "m = 0")
  case True
  then show ?thesis by (simp add: round_double_def)
next
  case False
  define a where "a = \<bar>real_of_int m\<bar> / 2"
  define j where "j = nat (52 - expo a)"
  have a_pos: "0 < a"
    using False by (simp add: a_def)
  have "\<bar>real_of_int m\<bar> \<le> 2 ^ 53"
    using assms by (metis of_int_abs of_int_le_iff of_int_numeral of_int_power)
  then have a_le: "a \<le> 2 ^ 52"
    by (simp add: a_def)
  have e_le: "expo a \<le> 52"
  proof (rule ccontr)
    assume "\<not> expo a \<le> 52"
    then have gt: "52 < expo a"
      by simp
    with expo_le [of a] have "2 powi (expo a) \<le> a"
      by auto
    moreover have "(2::real) powi 52 < 2 powi (expo a)"
      using gt by (intro power_int_strict_increasing) simp_all
    moreover have "(2::real) powi 52 = 2 ^ 52"
      using power_int_of_nat [of "2::real" 52] by simp
    ultimately show False
      using a_le by simp
  qed
  have q: "(2::real) powi (expo a - 52) = 1 / 2 ^ j"
    using powi_diff_nat [of 0 j] e_le by (simp add: j_def)
  have "\<exists>K. a * 2 ^ j = of_int K"
  proof (cases j)
    case 0
    then have "expo a = 52"
      using e_le by (simp add: j_def)
    with expo_le [of a] have "2 powi 52 \<le> a"
      by auto
    moreover have "(2::real) powi 52 = 2 ^ 52"
      using power_int_of_nat [of "2::real" 52] by simp
    ultimately have "a = 2 ^ 52"
      using a_le by simp
    then have "a * 2 ^ j = of_int (2 ^ 52)"
      using 0 by simp
    then show ?thesis ..
  next
    case (Suc j')
    have "a * 2 ^ j = of_int (\<bar>m\<bar> * 2 ^ j')"
      by (simp add: a_def Suc)
    then show ?thesis ..
  qed
  then obtain K where K: "a * 2 ^ j = of_int K" ..
  have y: "of_int (rhe (a / (1 / 2 ^ j))) * (1 / 2 ^ j) = a"
    by (simp add: K rhe_of_int) (simp add: K [symmetric])
  have "a < overflow_threshold"
  proof -
    have "(2::real) ^ 52 < overflow_threshold"
      unfolding overflow_threshold_def by (rule power_strict_increasing) simp_all
    with a_le show ?thesis by simp
  qed
  then have small: "\<not> overflow_threshold \<le> a"
    by simp
  have abs: "\<bar>real_of_int m / 2\<bar> = a"
    by (simp add: a_def)
  have "round_double (of_int m / 2) = Fin (if 0 < real_of_int m / 2 then a else - a)"
    using False small unfolding round_double_def Let_def abs q y by simp
  also have "(if 0 < real_of_int m / 2 then a else - a) = of_int m / 2"
    by (simp add: a_def)
  finally show ?thesis .
qed

lemma round_double_exact:
  assumes "of_int \<lfloor>2 * x\<rfloor> = 2 * x" and "\<bar>x\<bar> \<le> 4503599627370496"
  shows "round_double x = Fin x"
proof -
  have x: "x = of_int \<lfloor>2 * x\<rfloor> / 2"
    using assms(1) by linarith
  have "\<bar>real_of_int \<lfloor>2 * x\<rfloor>\<bar> = \<bar>2 * x\<bar>"
    by (simp only: assms(1))
  also have "\<dots> \<le> 2 ^ 53"
    using assms(2) by simp
  finally have "\<bar>\<lfloor>2 * x\<rfloor>\<bar> \<le> 2 ^ 53"
    by (metis of_int_abs of_int_le_iff of_int_numeral of_int_power)
  from round_double_half [OF this] x show ?thesis
    by simp
qed

lemma rounded_magnitude_nonneg:
  "0 \<le> real_of_int (rhe (\<bar>x\<bar> / 2 powi e)) * 2 powi e"
proof -
  have "0 \<le> \<bar>x\<bar> / 2 powi e"
    by simp
  then have "0 \<le> rhe (\<bar>x\<bar> / 2 powi e)"
    by (rule rhe_nonneg)
  then show ?thesis
    by simp
qed

lemma round_double_nonnegative:
  assumes "0 \<le> x"
  shows "nonnegative (round_double x)"
proof (cases "x = 0")
  case True
  then show ?thesis by (simp add: round_double_def)
next
  case False
  define y where
    "y = real_of_int (rhe (\<bar>x\<bar> / 2 powi (expo \<bar>x\<bar> - 52))) * 2 powi (expo \<bar>x\<bar> - 52)"
  have "0 \<le> y"
    unfolding y_def by (rule rounded_magnitude_nonneg)
  moreover have "round_double x = (if overflow_threshold \<le> y then PInf else Fin y)"
    using False assms unfolding round_double_def Let_def y_def by simp
  ultimately show ?thesis
    by simp
qed

lemma round_double_nonpositive:
  assumes "x \<le> 0"
  shows "nonpositive (round_double x)"
proof (cases "x = 0")
  case True
  then show ?thesis by (simp add: round_double_def)
next
  case False
  define y where
    "y = real_of_int (rhe (\<bar>x\<bar> / 2 powi (expo \<bar>x\<bar> - 52))) * 2 powi (expo \<bar>x\<bar> - 52)"
  have "0 \<le> y"
    unfolding y_def by (rule rounded_magnitude_nonneg)
  moreover have "round_double x = (if overflow_threshold \<le> y then NInf else Fin (- y))"
    using False assms unfolding round_double_def Let_def y_def by simp
  ultimately show ?thesis
    by simp
qed

lemma expo_subnormal:
  assumes "a < 2 powi (- 1021)"
  shows "expo a = - 1022"
  unfolding expo_def
proof (rule Max_eqI [OF expo_set_finite])
  fix e' assume "e' \<in> insert (- 1022) {e \<in> {- 1021 .. 1023}. 2 powi e \<le> a}"
  then consider "e' = - 1022" | "- 1021 \<le> e'" "(2::real) powi e' \<le> a"
    by auto
  then show "e' \<le> - 1022"
  proof cases
    case 1
    then show ?thesis by simp
  next
    case 2
    then have "(2::real) powi (- 1021) \<le> 2 powi e'"
      by (intro power_int_increasing) simp_all
    with 2(2) assms show ?thesis by simp
  qed
qed simp

text \<open>A positive real below half of the smallest subnormal rounds to zero.\<close>

lemma round_double_underflow:
  assumes "0 < x" and "x * 2 ^ 1074 < 1 / 2"
  shows "round_double x = Fin 0"
proof -
  define c :: real where "c = 2 ^ 1074"
  have pos: "0 < c"
    unfolding c_def by (rule zero_less_power) simp
  have pw: "(2::real) powi (- 1021) = 2 ^ 53 / c"
    unfolding c_def using powi_diff_nat [of 53 1074] by simp
  have small: "x * c < 1 / 2"
    using assms(2) by (simp only: c_def)
  then have "x * c < 2 ^ 53"
    by simp
  then have "x < 2 ^ 53 / c"
    using pos by (simp add: pos_less_divide_eq)
  then have "\<bar>x\<bar> < 2 powi (- 1021)"
    using assms(1) by (simp only: pw abs_of_pos)
  then have e: "expo \<bar>x\<bar> = - 1022"
    by (rule expo_subnormal)
  have q: "(2::real) powi (expo \<bar>x\<bar> - 52) = 1 / c"
    unfolding c_def using powi_diff_nat [of 0 1074] by (simp add: e)
  have nonneg: "0 \<le> x * c"
    using assms(1) pos by simp
  have "\<lfloor>x * c\<rfloor> = 0"
    using nonneg small by (simp add: floor_eq_iff)
  then have "rhe (x * c) = 0"
    using small by (simp add: rhe_def Let_def)
  then have y: "real_of_int (rhe (\<bar>x\<bar> / (1 / c))) * (1 / c) = 0"
    using assms(1) by simp
  have "\<not> overflow_threshold \<le> 0"
    by (simp add: overflow_threshold_def)
  then show ?thesis
    using assms(1) unfolding round_double_def Let_def q y by simp
qed

section \<open>The doubles of the literals and of the rent-cap constants\<close>

lemma round_double_exact2:
  assumes "2 * x \<in> \<int>" and "\<bar>x\<bar> \<le> 4503599627370496"
  shows "round_double x = Fin x"
proof -
  from assms(1) have "of_int \<lfloor>2 * x\<rfloor> = 2 * x"
    by (rule Ints_cases) simp
  then show ?thesis
    using assms(2) by (rule round_double_exact)
qed

lemma add_exact:
  assumes "2 * a \<in> \<int>" and "2 * b \<in> \<int>" and "\<bar>a + b\<bar> \<le> 4503599627370496"
  shows "Fin a + Fin b = Fin (a + b)"
proof -
  have "2 * (a + b) = 2 * a + 2 * b"
    by simp
  then have "2 * (a + b) \<in> \<int>"
    using assms(1,2) by (simp only: Ints_add)
  then show ?thesis
    using assms(3) by (simp add: round_double_exact2)
qed

lemma lit_0_8:
  "lit 0.8 = Fin (3602879701896397 / 4503599627370496)"
  "lit (4 / 5) = Fin (3602879701896397 / 4503599627370496)"
  by (simp_all add: lit_def round_double_pos [where n = 53] rhe_def)

lemma lit_0_9:
  "lit 0.9 = Fin (8106479329266893 / 9007199254740992)"
  "lit (9 / 10) = Fin (8106479329266893 / 9007199254740992)"
  by (simp_all add: lit_def round_double_pos [where n = 53] rhe_def)

lemma lit_0_95:
  "lit 0.95 = Fin (4278419646001971 / 4503599627370496)"
  "lit (19 / 20) = Fin (4278419646001971 / 4503599627370496)"
  by (simp_all add: lit_def round_double_pos [where n = 53] rhe_def)

lemma lit_1_05:
  "lit 1.05 = Fin (4728779608739021 / 4503599627370496)"
  "lit (21 / 20) = Fin (4728779608739021 / 4503599627370496)"
  by (simp_all add: lit_def round_double_pos [where n = 52] rhe_def)

lemma lit_1_1:
  "lit 1.1 = Fin (2476979795053773 / 2251799813685248)"
  "lit (11 / 10) = Fin (2476979795053773 / 2251799813685248)"
  by (simp_all add: lit_def round_double_pos [where n = 52] rhe_def)

lemma lit_1_2:
  "lit 1.2 = Fin (5404319552844595 / 4503599627370496)"
  "lit (6 / 5) = Fin (5404319552844595 / 4503599627370496)"
  by (simp_all add: lit_def round_double_pos [where n = 52] rhe_def)

lemma lit_3_4:
  "lit 3.4 = Fin (7656119366529843 / 2251799813685248)"
  "lit (17 / 5) = Fin (7656119366529843 / 2251799813685248)"
  by (simp_all add: lit_def round_double_pos [where n = 51] rhe_def)

lemma lit_8_4:
  "lit 8.4 = Fin (4728779608739021 / 562949953421312)"
  "lit (42 / 5) = Fin (4728779608739021 / 562949953421312)"
  by (simp_all add: lit_def round_double_pos [where n = 49] rhe_def)

lemma lit_0_08:
  "lit 0.08 = Fin (5764607523034235 / 72057594037927936)"
  "lit (2 / 25) = Fin (5764607523034235 / 72057594037927936)"
  by (simp_all add: lit_def round_double_pos [where n = 56] rhe_def)

lemma lit_0_008:
  "lit 0.008 = Fin (1152921504606847 / 144115188075855872)"
  "lit (1 / 125) = Fin (1152921504606847 / 144115188075855872)"
  by (simp_all add: lit_def round_double_pos [where n = 59] rhe_def)

lemmas threshold_values = lit_0_8 lit_0_9 lit_0_95 lit_1_05 lit_1_1 lit_1_2

lemma five_plus_inflation: "Fin 5 + lit 3.4 = lit 8.4"
  by (simp add: lit_3_4 lit_8_4 round_double_pos [where n = 49] rhe_def)

lemma stabilizedIncrease_value:
  "lit 8.4 / Fin 100 = Fin (6052837899185947 / 72057594037927936)"
  by (simp add: lit_8_4 round_double_pos [where n = 56] rhe_def)

lemma volatilityBenefit_value:
  "lit 0.08 - Fin (6052837899185947 / 72057594037927936) =
     Fin (- (9007199254741 / 2251799813685248))"
proof -
  have "round_double (- (9007199254741 / 2251799813685248)) =
      Fin (- (9007199254741 / 2251799813685248))"
    by (rule round_double_neg) (simp_all add: round_double_pos [where n = 60] rhe_def)
  then show ?thesis
    by (simp add: lit_0_08)
qed

lemma boost_percentage_value:
  "Fin (- (9007199254741 / 2251799813685248)) * Fin 100 =
     Fin (- (225179981368525 / 562949953421312))"
proof -
  have "round_double (- (225179981368525 / 562949953421312)) =
      Fin (- (225179981368525 / 562949953421312))"
    by (rule round_double_neg) (simp_all add: round_double_pos [where n = 54] rhe_def)
  then show ?thesis
    by simp
qed

section \<open>Facts about comparisons, clamps and signs\<close>

lemma less_not_greater_eq: "(a::number) < b \<Longrightarrow> \<not> b \<le> a"
  by (cases a; cases b) simp_all

lemma Math_min_Fin: "Math_min (Fin a) (Fin b) = Fin (min a b)"
  by (simp add: min_def)

lemma Math_max_Fin: "Math_max (Fin a) (Fin b) = Fin (max a b)"
  by (simp add: max_def)

lemma nonpositive_divide_pos:
  assumes "nonpositive x" and "0 < r"
  shows "nonpositive (x / Fin r)"
proof (cases x)
  case (Fin c)
  with assms have "c / r \<le> 0"
    by (simp add: divide_le_0_iff)
  then show ?thesis
    using assms(2) Fin by (simp add: round_double_nonpositive)
qed (use assms in simp_all)

lemma nonnegative_divide_neg:
  assumes "nonnegative x" and "r < 0"
  shows "nonpositive (x / Fin r)"
proof (cases x)
  case (Fin c)
  with assms have "c / r \<le> 0"
    by (simp add: divide_le_0_iff)
  then show ?thesis
    using assms(2) Fin by (simp add: round_double_nonpositive)
qed (use assms in simp_all)

lemma nonpositive_times_100:
  assumes "nonpositive x"
  shows "nonpositive (x * Fin 100)"
proof (cases x)
  case (Fin c)
  with assms have "c * 100 \<le> 0"
    by simp
  then show ?thesis
    using Fin by (simp add: round_double_nonpositive)
qed (use assms in simp_all)

lemma clamp_nonpositive:
  assumes "nonpositive x"
  shows "Math_min (Fin 20) (Math_max (Fin 0) x) = Fin 0"
  using assms by (cases x) auto

section \<open>Facts about the rent-cap helper and the sub-scores\<close>

lemma checkRentCapEligibility_isEligible:
  "isEligible (checkRentCapEligibility thisYear yb) = (Fin 15 \<le> Fin (of_int thisYear) - yb)"
  by (simp add: checkRentCapEligibility_def Let_def)

lemma checkRentCapEligibility_maxIncreasePercentage:
  "maxIncreasePercentage (checkRentCapEligibility thisYear yb) =
     (if isEligible (checkRentCapEligibility thisYear yb) then lit 8.4 else Fin 0)"
  using five_plus_inflation
  by (simp add: checkRentCapEligibility_def Let_def CURRENT_INFLATION_RATE_def)

lemma volatilityBenefit_eligible:
  assumes "isEligible (checkRentCapEligibility thisYear yb)"
  shows "lit 0.08 - maxIncreasePercentage (checkRentCapEligibility thisYear yb) / Fin 100 =
           Fin (- (9007199254741 / 2251799813685248))"
  using assms
  by (simp only: checkRentCapEligibility_maxIncreasePercentage if_True
      stabilizedIncrease_value volatilityBenefit_value)

lemma rent_quotient_nonpositive:
  assumes "r \<noteq> 0" and "0 < c"
  shows "nonpositive ((Fin r * Fin (- c)) / Fin r * Fin 100)"
proof (cases "0 < r")
  case True
  then have "r * - c \<le> 0"
    using assms(2) by (simp add: mult_nonneg_nonneg)
  then have "nonpositive (Fin r * Fin (- c))"
    by (simp add: round_double_nonpositive)
  then show ?thesis
    using True by (intro nonpositive_times_100 nonpositive_divide_pos)
next
  case False
  with assms(1) have neg: "r < 0"
    by simp
  then have "0 \<le> r * - c"
    using assms(2) by (simp add: mult_nonpos_nonneg)
  then have "nonnegative (Fin r * Fin (- c))"
    by (simp add: round_double_nonnegative)
  then show ?thesis
    using neg by (intro nonpositive_times_100 nonnegative_divide_neg)
qed

lemma boostScore_nonzero_rent:
  assumes "r \<noteq> 0"
  shows "boostScore (calculateRentStabilizationBoost thisYear yb (Fin r) a) = Fin 0"
proof (cases "isEligible (checkRentCapEligibility thisYear yb)")
  case False
  then show ?thesis
    by (simp add: calculateRentStabilizationBoost_def Let_def)
next
  case True
  have "boostScore (calculateRentStabilizationBoost thisYear yb (Fin r) a) =
      Math_min (Fin 20) (Math_max (Fin 0)
        ((Fin r * (lit 0.08 - maxIncreasePercentage (checkRentCapEligibility thisYear yb)
                     / Fin 100)) / Fin r * Fin 100))"
    using True by (simp add: calculateRentStabilizationBoost_def Let_def)
  also have "\<dots> = Math_min (Fin 20) (Math_max (Fin 0)
        ((Fin r * Fin (- (9007199254741 / 2251799813685248))) / Fin r * Fin 100))"
    by (simp only: volatilityBenefit_eligible [OF True])
  also have "\<dots> = Fin 0"
    by (rule clamp_nonpositive, rule rent_quotient_nonpositive [OF assms]) simp
  finally show ?thesis .
qed

lemma bonus_nonzero_rent:
  assumes "price p * lit 0.008 / Fin 12 = Fin r" and "r \<noteq> 0"
  shows "calculateRentStabilizationBonusValue thisYear p n = Fin 0"
  using assms
  by (simp add: calculateRentStabilizationBonusValue_def Let_def boostScore_nonzero_rent
      round_double_exact2)

lemma calculatePriceAdvantage_values:
  "calculatePriceAdvantage p n \<in> Fin ` {5, 10, 15, 20, 25, 30, 35, 40}"
  by (simp add: calculatePriceAdvantage_def Let_def)

lemma calculateSizeAdvantage_decomposition:
  "calculateSizeAdvantage p n =
     Math_min (Fin 15) (Math_max (Fin 0)
       (Fin (7.5 + sizeAdjustment p n + layoutAdjustment p + typeAdjustment p)))"
  by (simp add: calculateSizeAdvantage_def sizeAdjustment_def layoutAdjustment_def
      typeAdjustment_def Let_def round_double_exact2)

lemma sizeAdjustment_bounds:
  "sizeAdjustment p n \<in> \<int> \<and> - 2 \<le> sizeAdjustment p n \<and> sizeAdjustment p n \<le> 4"
  by (simp add: sizeAdjustment_def Let_def)

lemma layoutAdjustment_bounds:
  "layoutAdjustment p \<in> \<int> \<and> - 1 \<le> layoutAdjustment p \<and> layoutAdjustment p \<le> 2"
  by (simp add: layoutAdjustment_def Let_def)

lemma typeAdjustment_bounds:
  "typeAdjustment p \<in> \<int> \<and> 0 \<le> typeAdjustment p \<and> typeAdjustment p \<le> 2"
  by (simp add: typeAdjustment_def)

lemma calculateSizeAdvantage_values:
  "calculateSizeAdvantage p n \<in>
     Fin ` {4.5, 5.5, 6.5, 7.5, 8.5, 9.5, 10.5, 11.5, 12.5, 13.5, 14.5, 15}"
  by (simp add: calculateSizeAdvantage_def Let_def round_double_exact2)

lemma calculateSizeAdvantage_range:
  "\<exists>s. calculateSizeAdvantage p n = Fin s \<and> 2 * s \<in> \<int> \<and> 4.5 \<le> s \<and> s \<le> 15"
  using calculateSizeAdvantage_values [of p n] by auto

lemma calculateAgeAdvantage_values:
  "calculateAgeAdvantage y p n \<in> Fin ` {8, 9, 10, 11, 12, 13, 14, 15}"
  by (simp add: calculateAgeAdvantage_def Let_def round_double_exact2)

lemma calculateAgeAdvantage_range:
  "\<exists>s. calculateAgeAdvantage y p n = Fin s \<and> 2 * s \<in> \<int> \<and> 8 \<le> s \<and> s \<le> 15"
  using calculateAgeAdvantage_values [of y p n] by auto

lemma calculateLocationBonus_values:
  "calculateLocationBonus n \<in> Fin ` {5, 6, 7, 8, 9, 10}"
  by (simp add: calculateLocationBonus_def Let_def round_double_exact2 split: option.split)

lemma calculateLocationBonus_range:
  "\<exists>s. calculateLocationBonus n = Fin s \<and> 2 * s \<in> \<int> \<and> 5 \<le> s \<and> s \<le> 10"
  using calculateLocationBonus_values [of n] by auto

lemma calculateMarketTimingBonus_values:
  "calculateMarketTimingBonus n \<in> Fin ` {3, 4, 5, 6, 7, 8, 9, 10}"
  by (simp add: calculateMarketTimingBonus_def Let_def round_double_exact2 split: option.split)

lemma calculateMarketTimingBonus_range:
  "\<exists>s. calculateMarketTimingBonus n = Fin s \<and> 2 * s \<in> \<int> \<and> 3 \<le> s \<and> s \<le> 10"
  using calculateMarketTimingBonus_values [of n] by auto

lemma calculateDealScore_fields:
  "priceAdvantage (calculateDealScore y p n) = calculatePriceAdvantage p n"
  "sizeAdvantage (calculateDealScore y p n) = calculateSizeAdvantage p n"
  "ageAdvantage (calculateDealScore y p n) = calculateAgeAdvantage y p n"
  "rentStabilizationBonus (calculateDealScore y p n) = calculateRentStabilizationBonusValue y p n"
  "locationBonus (calculateDealScore y p n) = calculateLocationBonus n"
  "marketTimingBonus (calculateDealScore y p n) = calculateMarketTimingBonus n"
  "totalScore (calculateDealScore y p n) =
     Math_min (Fin 100) (Math_max (Fin 0)
       (Fin 0 + calculatePriceAdvantage p n + calculateSizeAdvantage p n
        + (calculateAgeAdvantage y p n + calculateRentStabilizationBonusValue y p n)
        + calculateLocationBonus n + calculateMarketTimingBonus n))"
  by (simp_all add: calculateDealScore_def Let_def)

lemma totalScore_range:
  assumes "price p * lit 0.008 / Fin 12 = Fin r" and "r \<noteq> 0"
  shows "\<exists>t. totalScore (calculateDealScore y p n) = Fin t \<and> 0 \<le> t \<and> t \<le> 100"
proof -
  obtain pa where pa: "calculatePriceAdvantage p n = Fin pa" "2 * pa \<in> \<int>" "5 \<le> pa" "pa \<le> 40"
    using calculatePriceAdvantage_values [of p n] by auto
  obtain sa where sa: "calculateSizeAdvantage p n = Fin sa" "2 * sa \<in> \<int>" "4.5 \<le> sa" "sa \<le> 15"
    using calculateSizeAdvantage_range by blast
  obtain aa where aa: "calculateAgeAdvantage y p n = Fin aa" "2 * aa \<in> \<int>" "8 \<le> aa" "aa \<le> 15"
    using calculateAgeAdvantage_range by blast
  obtain lb where lb: "calculateLocationBonus n = Fin lb" "2 * lb \<in> \<int>" "5 \<le> lb" "lb \<le> 10"
    using calculateLocationBonus_range by blast
  obtain mt where mt: "calculateMarketTimingBonus n = Fin mt" "2 * mt \<in> \<int>" "3 \<le> mt" "mt \<le> 10"
    using calculateMarketTimingBonus_range by blast
  have rb: "calculateRentStabilizationBonusValue y p n = Fin 0"
    using assms by (rule bonus_nonzero_rent)
  have s1: "Fin 0 + Fin pa = Fin pa"
    using add_exact [of 0 pa] pa by simp
  have s2: "Fin pa + Fin sa = Fin (pa + sa)"
    using pa sa by (intro add_exact) simp_all
  have s3: "Fin aa + Fin 0 = Fin aa"
    using add_exact [of aa 0] aa by simp
  have i2: "2 * (pa + sa) \<in> \<int>"
    using pa(2) sa(2) by (simp add: distrib_left)
  have s4: "Fin (pa + sa) + Fin aa = Fin (pa + sa + aa)"
    using i2 pa sa aa by (intro add_exact) simp_all
  have i4: "2 * (pa + sa + aa) \<in> \<int>"
    using i2 aa(2) by (simp add: distrib_left)
  have s5: "Fin (pa + sa + aa) + Fin lb = Fin (pa + sa + aa + lb)"
    using i4 pa sa aa lb by (intro add_exact) simp_all
  have i5: "2 * (pa + sa + aa + lb) \<in> \<int>"
    using i4 lb(2) by (simp add: distrib_left)
  have s6: "Fin (pa + sa + aa + lb) + Fin mt = Fin (pa + sa + aa + lb + mt)"
    using i5 pa sa aa lb mt by (intro add_exact) simp_all
  let ?t = "pa + sa + aa + lb + mt"
  have "totalScore (calculateDealScore y p n) = Fin (min 100 (max 0 ?t))"
    by (simp only: calculateDealScore_fields pa(1) sa(1) aa(1) lb(1) mt(1) rb
        s1 s2 s3 s4 s5 s6 Math_min_Fin Math_max_Fin)
  moreover have "0 \<le> min 100 (max 0 ?t)" and "min 100 (max 0 ?t) \<le> 100"
    by simp_all
  ultimately show ?thesis
    by blast
qed



lemma toLowerCase_component_names:
  "toLowerCase ''Price Advantage'' = ''price advantage''"
  "toLowerCase ''Size & Layout'' = ''size & layout''"
  by code_simp+

lemma plus_NaN_right: "x + NaN = NaN"
  by (cases x) simp_all

lemma boostScore_zero_rent_eligible:
  assumes "isEligible (checkRentCapEligibility thisYear yb)"
  shows "boostScore (calculateRentStabilizationBoost thisYear yb (Fin 0) a) = NaN"
proof -
  have "boostScore (calculateRentStabilizationBoost thisYear yb (Fin 0) a) =
      Math_min (Fin 20) (Math_max (Fin 0)
        ((Fin 0 * (lit 0.08 - maxIncreasePercentage (checkRentCapEligibility thisYear yb)
                     / Fin 100)) / Fin 0 * Fin 100))"
    using assms by (simp add: calculateRentStabilizationBoost_def Let_def)
  also have "\<dots> = Math_min (Fin 20) (Math_max (Fin 0)
        ((Fin 0 * Fin (- (9007199254741 / 2251799813685248))) / Fin 0 * Fin 100))"
    by (simp only: volatilityBenefit_eligible [OF assms])
  also have "\<dots> = NaN"
    by (simp add: round_double_exact2)
  finally show ?thesis .
qed

lemma eligible_1960: "isEligible (checkRentCapEligibility 2024 (Fin 1960))"
  by (simp add: checkRentCapEligibility_isEligible round_double_exact2)

lemma bonus_zero_price:
  "calculateRentStabilizationBonusValue 2024 (exampleProperty\<lparr>price := Fin 0\<rparr>)
     exampleNeighborhood = NaN"
  using boostScore_zero_rent_eligible [OF eligible_1960]
  by (simp add: calculateRentStabilizationBonusValue_def exampleProperty_def Let_def
      lit_0_008 round_double_exact2)



lemma estimatedMarketRent_example:
  "Fin 800000 * lit 0.008 / Fin 12 = Fin (4691249611844267 / 8796093022208)"
proof -
  have "Fin 800000 * lit 0.008 = Fin 6400"
    by (simp add: lit_0_008 round_double_pos [where n = 40] rhe_def)
  moreover have "Fin 6400 / Fin 12 = Fin (4691249611844267 / 8796093022208)"
    by (simp add: round_double_pos [where n = 43] rhe_def)
  ultimately show ?thesis
    by simp
qed

text \<open>
  A price so small that the estimated market rent underflows to zero, here the smallest
  positive double \<open>2^-1074\<close>, gives the same NaN bonus as a price of 0.
\<close>

lemma bonus_subnormal_price:
  "calculateRentStabilizationBonusValue 2024 (exampleProperty\<lparr>price := Fin (1 / 2 ^ 1074)\<rparr>)
     exampleNeighborhood = NaN"
proof -
  have "round_double (1 / 2 ^ 1074 * (1152921504606847 / 144115188075855872)) = Fin 0"
    by (rule round_double_underflow) (simp_all del: power_numeral)
  then have "Fin (1 / 2 ^ 1074) * lit 0.008 = Fin 0"
    by (simp add: lit_0_008 del: power_numeral)
  then show ?thesis
    using boostScore_zero_rent_eligible [OF eligible_1960]
    by (simp add: calculateRentStabilizationBonusValue_def exampleProperty_def Let_def
        round_double_exact2 del: power_numeral)
qed

section \<open>The claims\<close>

text \<open>
  C1.  Claimed: for every property and neighbourhood, with the year pinned, the total
  score of \<open>calculateDealScore\<close> lies in [0,100] and each sub-score in its documented
  range.  The code does not keep this for a listing whose price is 0 and whose age is at
  least 15 years: the estimated market rent is 0, the boost divides 0 by 0, and NaN passes
  through every \<open>Math.min\<close> and \<open>Math.max\<close>, so that the rent-stabilization bonus and the
  total score are NaN.
\<close>

theorem calculateDealScore_zero_price:
  "rentStabilizationBonus
     (calculateDealScore 2024 (exampleProperty\<lparr>price := Fin 0\<rparr>) exampleNeighborhood) = NaN
   \<and> totalScore
       (calculateDealScore 2024 (exampleProperty\<lparr>price := Fin 0\<rparr>) exampleNeighborhood) = NaN
   \<and> \<not> Fin 0 \<le> totalScore
       (calculateDealScore 2024 (exampleProperty\<lparr>price := Fin 0\<rparr>) exampleNeighborhood)
   \<and> \<not> totalScore
       (calculateDealScore 2024 (exampleProperty\<lparr>price := Fin 0\<rparr>) exampleNeighborhood)
         \<le> Fin 100"
  by (simp add: calculateDealScore_fields bonus_zero_price plus_NaN_right)



text \<open>
  C3.  \<open>checkRentCapEligibility\<close> reports a property eligible exactly when
  \<open>currentYear - yearBuilt >= 15\<close>: an age of exactly 14 years is ineligible, an age of
  exactly 15 years is eligible, and an ineligible result carries exactly one exemption
  reason, which states the age.
\<close>

theorem checkRentCapEligibility_age_rule:
  "(isEligible (checkRentCapEligibility thisYear yb)
      \<longleftrightarrow> Fin (of_int thisYear) - yb \<ge> Fin 15)
   \<and> (Fin (of_int thisYear) - yb = Fin 14
        \<longrightarrow> \<not> isEligible (checkRentCapEligibility thisYear yb))
   \<and> (Fin (of_int thisYear) - yb = Fin 15
        \<longrightarrow> isEligible (checkRentCapEligibility thisYear yb))
   \<and> (\<not> isEligible (checkRentCapEligibility thisYear yb)
        \<longrightarrow> exemptionReasons (checkRentCapEligibility thisYear yb) =
              [[Lit ''Property is only '', Num (Fin (of_int thisYear) - yb),
                Lit '' years old (must be 15+ years)'']]
            \<and> length (exemptionReasons (checkRentCapEligibility thisYear yb)) = 1)"
  by (simp add: checkRentCapEligibility_def Let_def)

theorem checkRentCapEligibility_age_rule_witness:
  "Fin (of_int 2024) - Fin 2010 = Fin 14
   \<and> \<not> isEligible (checkRentCapEligibility 2024 (Fin 2010))
   \<and> exemptionReasons (checkRentCapEligibility 2024 (Fin 2010)) =
       [[Lit ''Property is only '', Num (Fin 14), Lit '' years old (must be 15+ years)'']]
   \<and> Fin (of_int 2024) - Fin 2009 = Fin 15
   \<and> isEligible (checkRentCapEligibility 2024 (Fin 2009))"
proof -
  show ?thesis
    using checkRentCapEligibility_age_rule [of 2024 "Fin 2010"]
      checkRentCapEligibility_age_rule [of 2024 "Fin 2009"]
    by (simp add: round_double_exact2)
qed

text \<open>
  C4.  For every current rent, and whatever inflation rate the caller supplies, a
  construction year whose age is below 15 years makes \<open>calculateMaxRentIncrease\<close> return
  no increase: \<open>maxIncrease\<close> and \<open>increasePercentage\<close> are 0, \<open>isEligible\<close> is false and
  \<open>maxNewRent\<close> is the current rent unchanged.
\<close>

theorem calculateMaxRentIncrease_ineligible:
  assumes "Fin (of_int thisYear) - yb < Fin 15"
  shows "calculateMaxRentIncrease thisYear currentRent yb inflationRate =
           \<lparr>maxIncrease = Fin 0, maxNewRent = currentRent,
            increasePercentage = Fin 0, isEligible_inc = False\<rparr>"
  using less_not_greater_eq [OF assms]
  by (simp add: calculateMaxRentIncrease_def Let_def checkRentCapEligibility_isEligible)

theorem calculateMaxRentIncrease_ineligible_witness:
  "Fin (of_int 2024) - Fin 2010 < Fin 15
   \<and> calculateMaxRentIncrease 2024 (Fin 1000) (Fin 2010) (Some (Fin 2)) =
       \<lparr>maxIncrease = Fin 0, maxNewRent = Fin 1000,
        increasePercentage = Fin 0, isEligible_inc = False\<rparr>"
proof -
  have young: "Fin (of_int 2024) - Fin 2010 < Fin 15"
    by (simp add: round_double_exact2)
  from calculateMaxRentIncrease_ineligible [OF young, of "Fin 1000" "Some (Fin 2)"] young
  show ?thesis
    by simp
qed

text \<open>
  C5.  Claimed: with the inflation constant 3.4 the volatility benefit is
  \<open>0.08 - 0.084 < 0\<close>, so \<open>boostScore\<close> is 0 for every input and the rent-stabilization
  bonus of \<open>calculateDealScore\<close> is 0 for every property.  The code does not keep this
  for a market rent of 0 on an eligible property: the annual value is 0, the quotient
  \<open>annualValue / currentMarketRent\<close> is NaN and so is \<open>boostScore\<close>; the bonus of a
  property priced 0 is NaN as well.
\<close>

theorem boostScore_zero_rent:
  "boostScore (calculateRentStabilizationBoost 2024 (Fin 1960) (Fin 0) (lit 0.05 + lit 0.034))
     = NaN
   \<and> calculateRentStabilizationBonusValue 2024 (exampleProperty\<lparr>price := Fin 0\<rparr>)
       exampleNeighborhood = NaN"
  by (simp add: boostScore_zero_rent_eligible [OF eligible_1960] bonus_zero_price)

text \<open>
  C6.  Claimed: for an eligible property \<open>calculateMaxRentIncrease\<close> uses every supplied
  inflation rate \<open>r\<close> in place of the default, also \<open>r = 0\<close>, so that
  \<open>increasePercentage = 5.0 + r\<close>.  The code takes \<open>inflationRate || 3.4\<close>: a supplied
  rate of 0 gives the same result as no rate at all, 8.4 percent instead of 5.
\<close>

theorem calculateMaxRentIncrease_zero_rate:
  "calculateMaxRentIncrease thisYear currentRent yb (Some (Fin 0)) =
     calculateMaxRentIncrease thisYear currentRent yb None
   \<and> increasePercentage (calculateMaxRentIncrease 2024 (Fin 1000) (Fin 2000) (Some (Fin 0)))
       = lit 8.4
   \<and> increasePercentage (calculateMaxRentIncrease 2024 (Fin 1000) (Fin 2000) (Some (Fin 0)))
       \<noteq> Fin 5
   \<and> isEligible_inc (calculateMaxRentIncrease 2024 (Fin 1000) (Fin 2000) (Some (Fin 0)))
   \<and> increasePercentage (calculateMaxRentIncrease 2024 (Fin 1000) (Fin 2000) (Some (Fin 2)))
       = Fin 7"
  using five_plus_inflation
  by (simp add: calculateMaxRentIncrease_def checkRentCapEligibility_isEligible
      CURRENT_INFLATION_RATE_def Let_def round_double_exact2 lit_8_4)

text \<open>
  C7.  Claimed: a crime rate that is present counts by its value alone, so that a
  neighbourhood whose crime rate is present and 0 scores 2 more (before clamping) than
  the same neighbourhood without a crime rate.  The code tests \<open>if (neighborhood.crimeRate)\<close>:
  a crime rate of 0 is skipped like an absent one and both neighbourhoods get the same
  location bonus, while a crime rate of 1 gets the 2 points.
\<close>

theorem calculateLocationBonus_zero_crimeRate:
  "calculateLocationBonus (n\<lparr>crimeRate := Some (Fin 0)\<rparr>) =
     calculateLocationBonus (n\<lparr>crimeRate := None\<rparr>)
   \<and> calculateLocationBonus (exampleNeighborhood\<lparr>crimeRate := None\<rparr>) = Fin 5
   \<and> calculateLocationBonus (exampleNeighborhood\<lparr>crimeRate := Some (Fin 0)\<rparr>) = Fin 5
   \<and> calculateLocationBonus (exampleNeighborhood\<lparr>crimeRate := Some (Fin 1)\<rparr>) = Fin 7"
  by (simp add: calculateLocationBonus_def exampleNeighborhood_def Let_def round_double_exact2)

text \<open>
  C8.  Two calls of \<open>calculateRentStabilizationBoost\<close> that differ only in the assumed
  increase rate return the same \<open>boostScore\<close>.  Where the volatility benefit exists, that
  is for an eligible property, and the market rent is a finite number other than zero, the
  score is the volatility benefit times 100 clamped to [0,20].
\<close>

theorem boostScore_ignores_rate_assumption:
  "boostScore (calculateRentStabilizationBoost thisYear yb rent a) =
     boostScore (calculateRentStabilizationBoost thisYear yb rent b)
   \<and> (isEligible (checkRentCapEligibility thisYear yb) \<and> rent = Fin r \<and> r \<noteq> 0 \<longrightarrow>
        boostScore (calculateRentStabilizationBoost thisYear yb rent a) =
          Math_min (Fin 20) (Math_max (Fin 0)
            ((lit 0.08 - maxIncreasePercentage (checkRentCapEligibility thisYear yb) / Fin 100)
               * Fin 100)))"
proof -
  have independent: "boostScore (calculateRentStabilizationBoost thisYear yb rent a) =
      boostScore (calculateRentStabilizationBoost thisYear yb rent b)"
    by (simp add: calculateRentStabilizationBoost_def Let_def)
  have formula: "boostScore (calculateRentStabilizationBoost thisYear yb rent a) =
      Math_min (Fin 20) (Math_max (Fin 0)
        ((lit 0.08 - maxIncreasePercentage (checkRentCapEligibility thisYear yb) / Fin 100)
           * Fin 100))"
    if eligible: "isEligible (checkRentCapEligibility thisYear yb)"
      and rent: "rent = Fin r" and nonzero: "r \<noteq> 0"
  proof -
    have "Math_min (Fin 20) (Math_max (Fin 0)
        ((lit 0.08 - maxIncreasePercentage (checkRentCapEligibility thisYear yb) / Fin 100)
           * Fin 100)) =
        Math_min (Fin 20) (Math_max (Fin 0) (Fin (- (225179981368525 / 562949953421312))))"
      by (simp only: volatilityBenefit_eligible [OF eligible] boost_percentage_value)
    also have "\<dots> = Fin 0"
      by simp
    finally show ?thesis
      by (simp add: rent boostScore_nonzero_rent [OF nonzero])
  qed
  from independent formula show ?thesis
    by blast
qed

theorem boostScore_ignores_rate_assumption_witness:
  "isEligible (checkRentCapEligibility 2024 (Fin 1960)) \<and> (2000::real) \<noteq> 0
   \<and> boostScore (calculateRentStabilizationBoost 2024 (Fin 1960) (Fin 2000) (lit 0.084)) =
       boostScore (calculateRentStabilizationBoost 2024 (Fin 1960) (Fin 2000) (Fin 0.5))
   \<and> boostScore (calculateRentStabilizationBoost 2024 (Fin 1960) (Fin 2000) (lit 0.084)) =
       Math_min (Fin 20) (Math_max (Fin 0)
         ((lit 0.08 - maxIncreasePercentage (checkRentCapEligibility 2024 (Fin 1960)) / Fin 100)
            * Fin 100))"
proof -
  have nonzero: "(2000::real) \<noteq> 0"
    by simp
  from boostScore_ignores_rate_assumption
    [of 2024 "Fin 1960" "Fin 2000" "lit 0.084" "Fin 0.5" 2000] eligible_1960 nonzero
  show ?thesis
    by blast
qed

text \<open>
  C9.  The breakdown returned by \<open>calculateDealScore\<close> has exactly five entries, in the
  order price advantage, size and layout, age with rent stabilization as one entry,
  location and amenities, market timing; each entry carries the score of its component.
  The reasoning text of \<open>generateInvestmentRecommendation\<close>, which reads the first two
  entries by position, therefore names the price advantage and the size and layout.
\<close>

theorem breakdown_order:
  "map component (breakdown (calculateDealScore thisYear p n)) =
     [''Price Advantage'', ''Size & Layout'', ''Age & Rent Stabilization'',
      ''Location & Amenities'', ''Market Timing'']
   \<and> map score (breakdown (calculateDealScore thisYear p n)) =
       [priceAdvantage (calculateDealScore thisYear p n),
        sizeAdvantage (calculateDealScore thisYear p n),
        ageAdvantage (calculateDealScore thisYear p n)
          + rentStabilizationBonus (calculateDealScore thisYear p n),
        locationBonus (calculateDealScore thisYear p n),
        marketTimingBonus (calculateDealScore thisYear p n)]
   \<and> map maxScore (breakdown (calculateDealScore thisYear p n)) =
       [Fin 40, Fin 15, Fin 25, Fin 10, Fin 10]
   \<and> map_option keyFactors
         (generateInvestmentRecommendation thisYear' (calculateDealScore thisYear p n) p' n') =
       Some [''price advantage'', ''size & layout'']"
  by (simp add: calculateDealScore_def generateInvestmentRecommendation_def Let_def
      keyFactors_def toLowerCase_component_names)

text \<open>
  C10.  Claimed: zero denominators are treated as missing data, so that a bathroom count
  of 0 leaves the layout term without adjustment and no zero denominator gives a
  non-finite sub-score or total.  The code has no such guard and divides: three bedrooms
  over zero bathrooms are an infinite ratio, which is above 2 and costs one point.
\<close>

theorem calculateSizeAdvantage_zero_baths_counterexample:
  "baths (exampleProperty\<lparr>baths := Fin 0\<rparr>) = Fin 0
   \<and> beds (exampleProperty\<lparr>baths := Fin 0\<rparr>) / baths (exampleProperty\<lparr>baths := Fin 0\<rparr>) = PInf
   \<and> layoutAdjustment (exampleProperty\<lparr>baths := Fin 0\<rparr>) = - 1
   \<and> calculateSizeAdvantage (exampleProperty\<lparr>baths := Fin 0\<rparr>) exampleNeighborhood
       = Fin (7.5 + 2 - 1 + 2)"
  by (simp add: calculateSizeAdvantage_def layoutAdjustment_def exampleProperty_def
      exampleNeighborhood_def Let_def round_double_exact2 threshold_values)

text \<open>
  C10, as the code has it.  The size advantage is its base 7.5 plus the size, layout and
  type adjustments, clamped to [0,15].  With a bathroom count of 0 (the positive zero;
  the sign of a zero is not modelled) the layout adjustment is -1 when the bedroom count
  is positive (the ratio is infinite) and nothing otherwise (the ratio is NaN or negative
  infinity).  Whatever the denominators are, zero included, the price advantage is one of
  the eight step values and the size advantage is a finite number of [0,15]; and when the
  estimated market rent that the code computes, \<open>price * 0.008 / 12\<close> in doubles, is a
  finite number other than zero, the total score is a finite number of [0,100].
\<close>

theorem zero_denominators_divide:
  "calculateSizeAdvantage p n =
     Math_min (Fin 15) (Math_max (Fin 0)
       (Fin (7.5 + sizeAdjustment p n + layoutAdjustment p + typeAdjustment p)))
   \<and> (baths p = Fin 0 \<longrightarrow> layoutAdjustment p = (if Fin 0 < beds p then - 1 else 0))
   \<and> calculatePriceAdvantage p n \<in> Fin ` {5, 10, 15, 20, 25, 30, 35, 40}
   \<and> (\<exists>s. calculateSizeAdvantage p n = Fin s \<and> 0 \<le> s \<and> s \<le> 15)
   \<and> (price p * lit 0.008 / Fin 12 = Fin r \<and> r \<noteq> 0 \<longrightarrow>
        (\<exists>t. totalScore (calculateDealScore thisYear p n) = Fin t \<and> 0 \<le> t \<and> t \<le> 100))"
proof -
  have layout: "baths p = Fin 0 \<longrightarrow> layoutAdjustment p = (if Fin 0 < beds p then - 1 else 0)"
    by (cases "beds p") (simp_all add: layoutAdjustment_def Let_def)
  have size: "\<exists>s. calculateSizeAdvantage p n = Fin s \<and> 0 \<le> s \<and> s \<le> 15"
    using calculateSizeAdvantage_range [of p n] by force
  have total: "price p * lit 0.008 / Fin 12 = Fin r \<and> r \<noteq> 0 \<longrightarrow>
      (\<exists>t. totalScore (calculateDealScore thisYear p n) = Fin t \<and> 0 \<le> t \<and> t \<le> 100)"
    using totalScore_range [of p r thisYear n] by blast
  from layout size total calculateSizeAdvantage_decomposition [of p n]
    calculatePriceAdvantage_values [of p n]
  show ?thesis
    by blast
qed

theorem zero_denominators_divide_witness:
  "baths (exampleProperty\<lparr>sqft := Fin 0, baths := Fin 0\<rparr>) = Fin 0
   \<and> layoutAdjustment (exampleProperty\<lparr>sqft := Fin 0, baths := Fin 0\<rparr>) = - 1
   \<and> price (exampleProperty\<lparr>sqft := Fin 0, baths := Fin 0\<rparr>) * lit 0.008 / Fin 12
       = Fin (4691249611844267 / 8796093022208)
   \<and> (4691249611844267 / 8796093022208 :: real) \<noteq> 0
   \<and> (\<exists>t. totalScore
            (calculateDealScore 2024 (exampleProperty\<lparr>sqft := Fin 0, baths := Fin 0\<rparr>)
               (exampleNeighborhood\<lparr>medianPricePerSqft := Fin 0\<rparr>)) = Fin t
          \<and> 0 \<le> t \<and> t \<le> 100)"
proof -
  have rent: "price (exampleProperty\<lparr>sqft := Fin 0, baths := Fin 0\<rparr>) * lit 0.008 / Fin 12
      = Fin (4691249611844267 / 8796093022208)"
    using estimatedMarketRent_example by (simp add: exampleProperty_def)
  have zero: "baths (exampleProperty\<lparr>sqft := Fin 0, baths := Fin 0\<rparr>) = Fin 0"
    and positive: "Fin 0 < beds (exampleProperty\<lparr>sqft := Fin 0, baths := Fin 0\<rparr>)"
    and nonzero: "(4691249611844267 / 8796093022208 :: real) \<noteq> 0"
    by (simp_all add: exampleProperty_def)
  from zero_denominators_divide
    [of "exampleProperty\<lparr>sqft := Fin 0, baths := Fin 0\<rparr>"
        "exampleNeighborhood\<lparr>medianPricePerSqft := Fin 0\<rparr>"
        "4691249611844267 / 8796093022208" 2024]
    rent zero positive nonzero
  show ?thesis
    by simp
qed

end
